theory Spec2Isabelle
  imports Complex_Main "HOL-Library.Char_ord" "HOL-Library.List_Lexorder" "HOL-Library.Multiset"
begin

section \<open>Evaluation metrics of cxxnet (cxxnet/utils/cxxnet_metric.h)\<close>

subsection \<open>Arithmetic of the two floating-point types\<close>

text \<open>
  The header computes with \<open>float\<close> (scores, labels, the per-instance terms) and with
  \<open>double\<close> (the running sums). Their operations are not fixed here: they are the fields of
  a record that every function of the model takes as its first argument, so that each
  theorem holds for whatever these operations compute, rounding and special values included.
  \<open>'f\<close> is the type of \<open>float\<close> values and \<open>'d\<close> the type of \<open>double\<close> values.
  The instance counters are \<open>long\<close>; they are modelled by \<open>int\<close>, the range in which the
  counter does not overflow (signed overflow has no defined result in C++).
\<close>

record ('f, 'd) arith =
  f_sub :: "'f \<Rightarrow> 'f \<Rightarrow> 'f"
  f_mul :: "'f \<Rightarrow> 'f \<Rightarrow> 'f"
  f_gt :: "'f \<Rightarrow> 'f \<Rightarrow> bool"
  f_half :: "'f"
  f2d :: "'f \<Rightarrow> 'd"
  f2i :: "'f \<Rightarrow> int"
  l2d :: "int \<Rightarrow> 'd"
  d_zero :: "'d"
  d_add :: "'d \<Rightarrow> 'd \<Rightarrow> 'd"
  d_sub :: "'d \<Rightarrow> 'd \<Rightarrow> 'd"
  d_mul :: "'d \<Rightarrow> 'd \<Rightarrow> 'd"
  d_div :: "'d \<Rightarrow> 'd \<Rightarrow> 'd"
  d_sqrt :: "'d \<Rightarrow> 'd"

subsection \<open>Score buffers\<close>

text \<open>
  \<open>mshadow::Tensor<cpu,2>\<close>: \<open>shape[0]\<close> is the size of the output axis (the scores of one
  instance), \<open>shape[1]\<close> the number of instances, and \<open>predscore[i]\<close> is the
  \<open>Tensor<cpu,1>\<close> of the scores of instance \<open>i\<close>, whose \<open>shape[0]\<close> is that of the
  buffer. The memory behind the buffer is the list of its rows.
\<close>

record 'f Tensor1 =
  shape1d :: nat
  data1d :: "'f list"

record 'f Tensor2 =
  shape0 :: nat
  shape1 :: nat
  data :: "'f list list"

definition row :: "'f Tensor2 \<Rightarrow> nat \<Rightarrow> 'f Tensor1" where
  "row predscore i = \<lparr>shape1d = shape0 predscore, data1d = data predscore ! i\<rparr>"

definition elem :: "'f Tensor1 \<Rightarrow> nat \<Rightarrow> 'f" where
  "elem pred i = data1d pred ! i"

text \<open>
  A buffer is well formed when its rows are as many and as long as its shape says; a label
  array is aligned with it when it holds one label per instance. Outside these the source
  reads memory it does not own.
\<close>

definition wf_tensor :: "'f Tensor2 \<Rightarrow> bool" where
  "wf_tensor p = (length (data p) = shape1 p \<and> list_all (\<lambda>r. length r = shape0 p) (data p))"

definition aligned :: "'f Tensor2 \<Rightarrow> 'f list \<Rightarrow> bool" where
  "aligned p labels = (wf_tensor p \<and> length labels = shape1 p)"

text \<open>The instances of a batch: each row of scores with its label.\<close>

definition instances :: "'f Tensor2 \<Rightarrow> 'f list \<Rightarrow> ('f list \<times> 'f) list" where
  "instances p labels = zip (data p) labels"

text \<open>Concatenation of two batches along the instance axis.\<close>

definition concat_batch :: "'f Tensor2 \<Rightarrow> 'f Tensor2 \<Rightarrow> 'f Tensor2" where
  "concat_batch a b = \<lparr>shape0 = shape0 a, shape1 = shape1 a + shape1 b, data = data a @ data b\<rparr>"

subsection \<open>Failed assertions\<close>

datatype error = AssertError string

text \<open>
  A call either returns the new state of the object (\<open>Inr\<close>), or stops the program at a
  failed assertion (\<open>Inl\<close>), which carries the diagnostic and the state the object had at
  that moment.
\<close>

type_synonym 's result = "(error \<times> 's) + 's"

text \<open>
  Modelled from the spec: \<open>utils::Assert\<close> is defined in another header of the repository.
  The spec has it signal an error, with a diagnostic that names the violated precondition,
  when its condition is false (fail fast), and do nothing otherwise.
\<close>

definition Assert :: "bool \<Rightarrow> string \<Rightarrow> 's \<Rightarrow> 's result" where
  "Assert cond msg st = (if cond then Inr st else Inl (AssertError msg, st))"

definition final_state :: "'s result \<Rightarrow> 's" where
  "final_state r = (case r of Inl (e, st) \<Rightarrow> st | Inr st \<Rightarrow> st)"

text \<open>One call after another: the second runs only if the first returned.\<close>

definition and_then :: "'s result \<Rightarrow> ('s \<Rightarrow> 's result) \<Rightarrow> 's result" where
  "and_then r f = (case r of Inl e \<Rightarrow> Inl e | Inr st \<Rightarrow> f st)"

text \<open>\<open>for (index_t i = lo; i < hi; ++i) body\<close>, the body acting on the state.\<close>

definition for_loop :: "nat \<Rightarrow> nat \<Rightarrow> (nat \<Rightarrow> 's \<Rightarrow> 's) \<Rightarrow> 's \<Rightarrow> 's" where
  "for_loop lo hi body st = fold body [lo..<hi] st"

subsection \<open>MetricRMSE\<close>

record 'd MetricRMSE =
  rmse_sum_err :: "'d"
  rmse_cnt_inst :: int

definition RMSE_Clear :: "('f, 'd) arith \<Rightarrow> 'd MetricRMSE \<Rightarrow> 'd MetricRMSE" where
  "RMSE_Clear ar st = st\<lparr>rmse_sum_err := d_zero ar, rmse_cnt_inst := 0\<rparr>"

definition RMSE_new :: "('f, 'd) arith \<Rightarrow> 'd MetricRMSE" where
  "RMSE_new ar = \<lparr>rmse_sum_err = d_zero ar, rmse_cnt_inst = 0\<rparr>"

definition RMSE_body :: "('f, 'd) arith \<Rightarrow> 'f \<Rightarrow> 'f \<Rightarrow> 'd MetricRMSE \<Rightarrow> 'd MetricRMSE" where
  "RMSE_body ar score label st =
     (let diff = f_sub ar score label;
          st = st\<lparr>rmse_sum_err := d_add ar (rmse_sum_err st) (f2d ar (f_mul ar diff diff))\<rparr>
      in st\<lparr>rmse_cnt_inst := rmse_cnt_inst st + 1\<rparr>)"

definition RMSE_AddEval ::
  "('f, 'd) arith \<Rightarrow> 'f Tensor2 \<Rightarrow> 'f list \<Rightarrow> 'd MetricRMSE \<Rightarrow> 'd MetricRMSE result" where
  "RMSE_AddEval ar predscore labels st =
     and_then (Assert (shape0 predscore = 1) ''RMSE can only accept shape[0]=1'' st)
       (\<lambda>st. Inr (for_loop 0 (shape1 predscore)
          (\<lambda>i. RMSE_body ar (elem (row predscore i) 0) (labels ! i)) st))"

definition RMSE_Get :: "('f, 'd) arith \<Rightarrow> 'd MetricRMSE \<Rightarrow> 'd" where
  "RMSE_Get ar st = d_sqrt ar (d_div ar (rmse_sum_err st) (l2d ar (rmse_cnt_inst st)))"

subsection \<open>MetricCorrSqr\<close>

record 'd MetricCorrSqr =
  sum_x :: "'d"
  sum_y :: "'d"
  sum_xsqr :: "'d"
  sum_ysqr :: "'d"
  sum_xyprod :: "'d"
  corr_cnt_inst :: int

definition CorrSqr_Clear :: "('f, 'd) arith \<Rightarrow> 'd MetricCorrSqr \<Rightarrow> 'd MetricCorrSqr" where
  "CorrSqr_Clear ar st = st\<lparr>sum_x := d_zero ar, sum_y := d_zero ar, sum_xsqr := d_zero ar,
     sum_ysqr := d_zero ar, sum_xyprod := d_zero ar, corr_cnt_inst := 0\<rparr>"

definition CorrSqr_new :: "('f, 'd) arith \<Rightarrow> 'd MetricCorrSqr" where
  "CorrSqr_new ar = \<lparr>sum_x = d_zero ar, sum_y = d_zero ar, sum_xsqr = d_zero ar,
     sum_ysqr = d_zero ar, sum_xyprod = d_zero ar, corr_cnt_inst = 0\<rparr>"

definition CorrSqr_body ::
  "('f, 'd) arith \<Rightarrow> 'f \<Rightarrow> 'f \<Rightarrow> 'd MetricCorrSqr \<Rightarrow> 'd MetricCorrSqr" where
  "CorrSqr_body ar score label st =
     (let x = f_sub ar score (f_half ar);
          y = f_sub ar label (f_half ar);
          st = st\<lparr>sum_x := d_add ar (sum_x st) (f2d ar x)\<rparr>;
          st = st\<lparr>sum_y := d_add ar (sum_y st) (f2d ar y)\<rparr>;
          st = st\<lparr>sum_xsqr := d_add ar (sum_xsqr st) (f2d ar (f_mul ar x x))\<rparr>;
          st = st\<lparr>sum_ysqr := d_add ar (sum_ysqr st) (f2d ar (f_mul ar y y))\<rparr>;
          st = st\<lparr>sum_xyprod := d_add ar (sum_xyprod st) (f2d ar (f_mul ar x y))\<rparr>
      in st\<lparr>corr_cnt_inst := corr_cnt_inst st + 1\<rparr>)"

definition CorrSqr_AddEval ::
  "('f, 'd) arith \<Rightarrow> 'f Tensor2 \<Rightarrow> 'f list \<Rightarrow> 'd MetricCorrSqr \<Rightarrow> 'd MetricCorrSqr result" where
  "CorrSqr_AddEval ar predscore labels st =
     and_then (Assert (shape0 predscore = 1) ''RMSE can only accept shape[0]=1'' st)
       (\<lambda>st. Inr (for_loop 0 (shape1 predscore)
          (\<lambda>i. CorrSqr_body ar (elem (row predscore i) 0) (labels ! i)) st))"

definition CorrSqr_Get :: "('f, 'd) arith \<Rightarrow> 'd MetricCorrSqr \<Rightarrow> 'd" where
  "CorrSqr_Get ar st =
     (let cnt = l2d ar (corr_cnt_inst st);
          mean_x = d_div ar (sum_x st) cnt;
          mean_y = d_div ar (sum_y st) cnt;
          corr = d_sub ar (d_div ar (sum_xyprod st) cnt) (d_mul ar mean_x mean_y);
          xvar = d_sub ar (d_div ar (sum_xsqr st) cnt) (d_mul ar mean_x mean_x);
          yvar = d_sub ar (d_div ar (sum_ysqr st) cnt) (d_mul ar mean_y mean_y);
          res = d_div ar (d_mul ar corr corr) (d_mul ar xvar yvar)
      in res)"

subsection \<open>MetricError\<close>

record 'd MetricError =
  err_sum_err :: "'d"
  err_cnt_inst :: int

definition Error_Clear :: "('f, 'd) arith \<Rightarrow> 'd MetricError \<Rightarrow> 'd MetricError" where
  "Error_Clear ar st = st\<lparr>err_sum_err := d_zero ar, err_cnt_inst := 0\<rparr>"

definition Error_new :: "('f, 'd) arith \<Rightarrow> 'd MetricError" where
  "Error_new ar = \<lparr>err_sum_err = d_zero ar, err_cnt_inst = 0\<rparr>"

text \<open>
  \<open>GetMaxIndex\<close>: \<open>maxidx\<close> starts at 0 and moves to \<open>i\<close> when \<open>pred[i] > pred[maxidx]\<close>,
  for \<open>i\<close> from 1; the \<open>index_t\<close> is returned as an \<open>int\<close>.
\<close>

definition GetMaxIndex :: "('f, 'd) arith \<Rightarrow> 'f Tensor1 \<Rightarrow> int" where
  "GetMaxIndex ar pred =
     int (for_loop 1 (shape1d pred)
            (\<lambda>i maxidx. if f_gt ar (elem pred i) (elem pred maxidx) then i else maxidx) 0)"

text \<open>
  The loop body of \<open>MetricError::AddEval\<close>. The comparison is a \<open>bool\<close>, which \<open>+=\<close>
  converts to the \<open>double\<close> of 1 or of 0.
\<close>

definition Error_body ::
  "('f, 'd) arith \<Rightarrow> 'f Tensor1 \<Rightarrow> 'f \<Rightarrow> 'd MetricError \<Rightarrow> 'd MetricError" where
  "Error_body ar pred label st =
     (let wrong = (GetMaxIndex ar pred \<noteq> f2i ar label);
          st = st\<lparr>err_sum_err := d_add ar (err_sum_err st) (l2d ar (if wrong then 1 else 0))\<rparr>
      in st\<lparr>err_cnt_inst := err_cnt_inst st + 1\<rparr>)"

definition Error_AddEval ::
  "('f, 'd) arith \<Rightarrow> 'f Tensor2 \<Rightarrow> 'f list \<Rightarrow> 'd MetricError \<Rightarrow> 'd MetricError result" where
  "Error_AddEval ar predscore labels st =
     and_then (Assert (shape0 predscore = 1) ''RMSE can only accept shape[0]=1'' st)
       (\<lambda>st. Inr (for_loop 0 (shape1 predscore)
          (\<lambda>i. Error_body ar (row predscore i) (labels ! i)) st))"

definition Error_Get :: "('f, 'd) arith \<Rightarrow> 'd MetricError \<Rightarrow> 'd" where
  "Error_Get ar st = d_div ar (err_sum_err st) (l2d ar (err_cnt_inst st))"

subsection \<open>The metrics behind the interface IMetric\<close>

text \<open>
  A pointer to an \<open>IMetric\<close> points to an object of one of the three classes; a virtual
  call goes to the function of that class.
\<close>

datatype 'd IMetric =
  Metric_RMSE "'d MetricRMSE"
| Metric_CorrSqr "'d MetricCorrSqr"
| Metric_Error "'d MetricError"

fun Name :: "'d IMetric \<Rightarrow> string" where
  "Name (Metric_RMSE st) = ''rmse''"
| "Name (Metric_CorrSqr st) = ''r2''"
| "Name (Metric_Error st) = ''error''"

fun Clear :: "('f, 'd) arith \<Rightarrow> 'd IMetric \<Rightarrow> 'd IMetric" where
  "Clear ar (Metric_RMSE st) = Metric_RMSE (RMSE_Clear ar st)"
| "Clear ar (Metric_CorrSqr st) = Metric_CorrSqr (CorrSqr_Clear ar st)"
| "Clear ar (Metric_Error st) = Metric_Error (Error_Clear ar st)"

definition lift_result :: "('s \<Rightarrow> 't) \<Rightarrow> 's result \<Rightarrow> 't result" where
  "lift_result c r = (case r of Inl (e, st) \<Rightarrow> Inl (e, c st) | Inr st \<Rightarrow> Inr (c st))"

fun AddEval :: "('f, 'd) arith \<Rightarrow> 'f Tensor2 \<Rightarrow> 'f list \<Rightarrow> 'd IMetric \<Rightarrow> 'd IMetric result" where
  "AddEval ar predscore labels (Metric_RMSE st) =
     lift_result Metric_RMSE (RMSE_AddEval ar predscore labels st)"
| "AddEval ar predscore labels (Metric_CorrSqr st) =
     lift_result Metric_CorrSqr (CorrSqr_AddEval ar predscore labels st)"
| "AddEval ar predscore labels (Metric_Error st) =
     lift_result Metric_Error (Error_AddEval ar predscore labels st)"

fun Get :: "('f, 'd) arith \<Rightarrow> 'd IMetric \<Rightarrow> 'd" where
  "Get ar (Metric_RMSE st) = RMSE_Get ar st"
| "Get ar (Metric_CorrSqr st) = CorrSqr_Get ar st"
| "Get ar (Metric_Error st) = Error_Get ar st"

subsection \<open>MetricSet\<close>

text \<open>
  \<open>strcmp\<close> of the C library: the sign of the first difference of two strings, read as
  unsigned bytes, a proper prefix being the smaller. Only the sign of the result is
  specified, and only the sign is used by the header; the model returns -1, 0 or 1.
\<close>

fun strcmp :: "string \<Rightarrow> string \<Rightarrow> int" where
  "strcmp [] [] = 0"
| "strcmp [] (b # bs) = - 1"
| "strcmp (a # as) [] = 1"
| "strcmp (a # as) (b # bs) =
     (if a = b then strcmp as bs
      else if (of_char a :: nat) < of_char b then - 1 else 1)"

definition CmpName :: "'d IMetric \<Rightarrow> 'd IMetric \<Rightarrow> bool" where
  "CmpName a b = (strcmp (Name a) (Name b) < 0)"

definition EqualName :: "'d IMetric \<Rightarrow> 'd IMetric \<Rightarrow> bool" where
  "EqualName a b = (strcmp (Name a) (Name b) = 0)"

text \<open>
  \<open>std::unique\<close> followed by the \<open>resize\<close> to the iterator it returns: of every run of
  consecutive elements that the predicate holds equal to the last element kept, only
  that element stays.
\<close>

fun unique_from :: "('a \<Rightarrow> 'a \<Rightarrow> bool) \<Rightarrow> 'a \<Rightarrow> 'a list \<Rightarrow> 'a list" where
  "unique_from eq kept [] = []"
| "unique_from eq kept (x # xs) =
     (if eq kept x then unique_from eq kept xs else x # unique_from eq x xs)"

fun unique :: "('a \<Rightarrow> 'a \<Rightarrow> bool) \<Rightarrow> 'a list \<Rightarrow> 'a list" where
  "unique eq [] = []"
| "unique eq (x # xs) = x # unique_from eq x xs"

text \<open>
  \<open>std::sort\<close> is not stable and its algorithm is the library's choice, so it is an
  argument \<open>srt\<close> of the model. What the standard promises of it: the result is a
  rearrangement of the range in which no element is smaller than an element before it.
\<close>

definition is_std_sort ::
  "(('a \<Rightarrow> 'a \<Rightarrow> bool) \<Rightarrow> 'a list \<Rightarrow> 'a list) \<Rightarrow> ('a \<Rightarrow> 'a \<Rightarrow> bool) \<Rightarrow> bool" where
  "is_std_sort srt cmp =
     (\<forall>xs. mset (srt cmp xs) = mset xs \<and> sorted_wrt (\<lambda>a b. \<not> cmp b a) (srt cmp xs))"

text \<open>The member \<open>evals_\<close> is the whole state of a \<open>MetricSet\<close>.\<close>

type_synonym 'd MetricSet = "'d IMetric list"

definition AddMetric ::
  "('f, 'd) arith \<Rightarrow> (('d IMetric \<Rightarrow> 'd IMetric \<Rightarrow> bool) \<Rightarrow> 'd MetricSet \<Rightarrow> 'd MetricSet)
     \<Rightarrow> string \<Rightarrow> 'd MetricSet \<Rightarrow> 'd MetricSet" where
  "AddMetric ar srt name evals =
     (let evals = (if strcmp name ''rmse'' = 0 then evals @ [Metric_RMSE (RMSE_new ar)] else evals);
          evals = (if strcmp name ''error'' = 0 then evals @ [Metric_Error (Error_new ar)] else evals);
          evals = (if strcmp name ''r2'' = 0 then evals @ [Metric_CorrSqr (CorrSqr_new ar)] else evals);
          evals = srt CmpName evals
      in unique EqualName evals)"

definition MetricSet_Clear :: "('f, 'd) arith \<Rightarrow> 'd MetricSet \<Rightarrow> 'd MetricSet" where
  "MetricSet_Clear ar evals = map (Clear ar) evals"

text \<open>
  \<open>MetricSet::AddEval\<close> calls the members in order; a failed assertion in one of them
  stops the program with the members before it updated.
\<close>

fun MetricSet_AddEval ::
  "('f, 'd) arith \<Rightarrow> 'f Tensor2 \<Rightarrow> 'f list \<Rightarrow> 'd MetricSet \<Rightarrow> 'd MetricSet result" where
  "MetricSet_AddEval ar predscore labels [] = Inr []"
| "MetricSet_AddEval ar predscore labels (m # ms) =
     (case AddEval ar predscore labels m of
        Inl (e, m') \<Rightarrow> Inl (e, m' # ms)
      | Inr m' \<Rightarrow> lift_result (\<lambda>ms'. m' # ms') (MetricSet_AddEval ar predscore labels ms))"

text \<open>
  The states a \<open>MetricSet\<close> can be in: \<open>evals_\<close> is private and starts empty, and only the
  three member functions change it.
\<close>

inductive reachable ::
  "('f, 'd) arith \<Rightarrow> (('d IMetric \<Rightarrow> 'd IMetric \<Rightarrow> bool) \<Rightarrow> 'd MetricSet \<Rightarrow> 'd MetricSet)
     \<Rightarrow> 'd MetricSet \<Rightarrow> bool"
  for ar srt where
  reachable_new: "reachable ar srt []"
| reachable_AddMetric: "reachable ar srt evals \<Longrightarrow> reachable ar srt (AddMetric ar srt name evals)"
| reachable_Clear: "reachable ar srt evals \<Longrightarrow> reachable ar srt (MetricSet_Clear ar evals)"
| reachable_AddEval: "reachable ar srt evals \<Longrightarrow>
     MetricSet_AddEval ar predscore labels evals = Inr evals' \<Longrightarrow> reachable ar srt evals'"

subsection \<open>Sequences of calls\<close>

text \<open>The calls of \<open>AddEval\<close> on the batches of a list, in order, up to the first that fails.\<close>

fun AddEval_seq ::
  "('f Tensor2 \<Rightarrow> 'f list \<Rightarrow> 's \<Rightarrow> 's result) \<Rightarrow> ('f Tensor2 \<times> 'f list) list \<Rightarrow> 's \<Rightarrow> 's result" where
  "AddEval_seq add [] st = Inr st"
| "AddEval_seq add ((predscore, labels) # batches) st =
     and_then (add predscore labels st) (AddEval_seq add batches)"

subsection \<open>Instances of the arithmetic\<close>

text \<open>
  Exact arithmetic on the reals: what the operations compute when no result is rounded,
  overflows or is a special value. The cast to \<open>int\<close> truncates towards zero.
\<close>

definition exact_arith :: "(real, real) arith" where
  "exact_arith = \<lparr>f_sub = (\<lambda>a b. a - b), f_mul = (\<lambda>a b. a * b), f_gt = (\<lambda>a b. a > b),
     f_half = 1 / 2, f2d = (\<lambda>a. a), f2i = (\<lambda>a. if 0 \<le> a then \<lfloor>a\<rfloor> else \<lceil>a\<rceil>),
     l2d = of_int, d_zero = 0, d_add = (\<lambda>a b. a + b), d_sub = (\<lambda>a b. a - b),
     d_mul = (\<lambda>a b. a * b), d_div = (\<lambda>a b. a / b), d_sqrt = sqrt\<rparr>"

text \<open>Insertion sort, one sorting algorithm that \<open>std::sort\<close> may be.\<close>

fun insert_by :: "('a \<Rightarrow> 'a \<Rightarrow> bool) \<Rightarrow> 'a \<Rightarrow> 'a list \<Rightarrow> 'a list" where
  "insert_by cmp x [] = [x]"
| "insert_by cmp x (y # ys) = (if cmp x y then x # y # ys else y # insert_by cmp x ys)"

definition insertion_sort :: "('a \<Rightarrow> 'a \<Rightarrow> bool) \<Rightarrow> 'a list \<Rightarrow> 'a list" where
  "insertion_sort cmp xs = foldr (insert_by cmp) xs []"

text \<open>
  Exact arithmetic with the special values of IEEE 754: the two infinities and NaN. Finite
  results are not rounded and the two zeros are not told apart.
\<close>

datatype xdouble = Fin real | PInf | NInf | NaN

fun xfinite :: "xdouble \<Rightarrow> bool" where
  "xfinite (Fin a) = True"
| "xfinite x = False"

fun x_neg :: "xdouble \<Rightarrow> xdouble" where
  "x_neg (Fin a) = Fin (- a)"
| "x_neg PInf = NInf"
| "x_neg NInf = PInf"
| "x_neg NaN = NaN"

fun x_add :: "xdouble \<Rightarrow> xdouble \<Rightarrow> xdouble" where
  "x_add (Fin a) (Fin b) = Fin (a + b)"
| "x_add NaN y = NaN"
| "x_add x NaN = NaN"
| "x_add PInf NInf = NaN"
| "x_add NInf PInf = NaN"
| "x_add (Fin a) y = y"
| "x_add x y = x"

definition x_sub :: "xdouble \<Rightarrow> xdouble \<Rightarrow> xdouble" where
  "x_sub x y = x_add x (x_neg y)"

fun x_mul :: "xdouble \<Rightarrow> xdouble \<Rightarrow> xdouble" where
  "x_mul (Fin a) (Fin b) = Fin (a * b)"
| "x_mul NaN y = NaN"
| "x_mul x NaN = NaN"
| "x_mul (Fin a) y = (if a = 0 then NaN else if 0 < a then y else x_neg y)"
| "x_mul x (Fin b) = (if b = 0 then NaN else if 0 < b then x else x_neg x)"
| "x_mul PInf y = y"
| "x_mul NInf y = x_neg y"

fun x_div :: "xdouble \<Rightarrow> xdouble \<Rightarrow> xdouble" where
  "x_div (Fin a) (Fin b) =
     (if b = 0 then (if a = 0 then NaN else if 0 < a then PInf else NInf) else Fin (a / b))"
| "x_div NaN y = NaN"
| "x_div x NaN = NaN"
| "x_div (Fin a) y = Fin 0"
| "x_div x (Fin b) = (if 0 \<le> b then x else x_neg x)"
| "x_div x y = NaN"

fun x_sqrt :: "xdouble \<Rightarrow> xdouble" where
  "x_sqrt (Fin a) = (if a < 0 then NaN else Fin (sqrt a))"
| "x_sqrt PInf = PInf"
| "x_sqrt x = NaN"

fun x_gt :: "xdouble \<Rightarrow> xdouble \<Rightarrow> bool" where
  "x_gt (Fin a) (Fin b) = (a > b)"
| "x_gt NaN y = False"
| "x_gt x NaN = False"
| "x_gt PInf y = (y \<noteq> PInf)"
| "x_gt x NInf = (x \<noteq> NInf)"
| "x_gt x y = False"

fun x_trunc :: "xdouble \<Rightarrow> int" where
  "x_trunc (Fin a) = (if 0 \<le> a then \<lfloor>a\<rfloor> else \<lceil>a\<rceil>)"
| "x_trunc x = 0"

definition ieee_arith :: "(xdouble, xdouble) arith" where
  "ieee_arith = \<lparr>f_sub = x_sub, f_mul = x_mul, f_gt = x_gt, f_half = Fin (1 / 2),
     f2d = (\<lambda>a. a), f2i = x_trunc, l2d = (\<lambda>n. Fin (of_int n)), d_zero = Fin 0,
     d_add = x_add, d_sub = x_sub, d_mul = x_mul, d_div = x_div, d_sqrt = x_sqrt\<rparr>"

subsection \<open>Notions the properties are stated with\<close>

text \<open>
  A comparison is a strict weak order on a set of values when it is irreflexive and
  transitive there, and so is its negation: what \<open>>\<close> is on \<open>float\<close> values none of which
  is a NaN.
\<close>

definition strict_weak_on :: "('a \<Rightarrow> 'a \<Rightarrow> bool) \<Rightarrow> 'a set \<Rightarrow> bool" where
  "strict_weak_on gt S =
     ((\<forall>a\<in>S. \<not> gt a a) \<and>
      (\<forall>a\<in>S. \<forall>b\<in>S. \<forall>c\<in>S. gt a b \<longrightarrow> gt b c \<longrightarrow> gt a c) \<and>
      (\<forall>a\<in>S. \<forall>b\<in>S. \<forall>c\<in>S. \<not> gt a b \<longrightarrow> \<not> gt b c \<longrightarrow> \<not> gt a c))"

text \<open>The instances of a list of batches, in the order in which the calls meet them.\<close>

definition all_instances :: "('f Tensor2 \<times> 'f list) list \<Rightarrow> ('f list \<times> 'f) list" where
  "all_instances batches = concat (map (\<lambda>(p, labels). instances p labels) batches)"

text \<open>
  What IEEE 754 arithmetic does where a \<open>double\<close> is not finite (an infinity or a NaN), as
  far as \<open>Get\<close> depends on it: a division by the \<open>double\<close> of 0 traps nothing and gives a
  value that is not finite; the square root of such a value, and the difference, the
  product and the quotient of two such values, are not finite either.
\<close>

definition nonfinite_rules :: "('f, 'd) arith \<Rightarrow> ('d \<Rightarrow> bool) \<Rightarrow> bool" where
  "nonfinite_rules ar isfinite =
     ((\<forall>x. \<not> isfinite (d_div ar x (l2d ar 0))) \<and>
      (\<forall>x. \<not> isfinite x \<longrightarrow> \<not> isfinite (d_sqrt ar x)) \<and>
      (\<forall>x y. \<not> isfinite x \<longrightarrow> \<not> isfinite y \<longrightarrow>
         \<not> isfinite (d_sub ar x y) \<and> \<not> isfinite (d_mul ar x y) \<and> \<not> isfinite (d_div ar x y)))"

section \<open>Properties\<close>

subsection \<open>Loops over the instances of a batch\<close>

lemma for_loop_zip:
  "length xs = n \<Longrightarrow> length ls = n \<Longrightarrow>
   for_loop 0 n (\<lambda>i. body (xs ! i) (ls ! i)) st = fold (\<lambda>(x, l). body x l) (zip xs ls) st"
proof -
  assume a: "length xs = n" "length ls = n"
  have "map (\<lambda>i. (xs ! i, ls ! i)) [0..<n] = zip xs ls"
    using a by (intro nth_equalityI) auto
  then have "fold (\<lambda>(x, l). body x l) (zip xs ls) st
      = fold (\<lambda>(x, l). body x l) (map (\<lambda>i. (xs ! i, ls ! i)) [0..<n]) st" by simp
  also have "\<dots> = fold (\<lambda>i. body (xs ! i) (ls ! i)) [0..<n] st"
    by (simp add: fold_map comp_def)
  finally show ?thesis by (simp add: for_loop_def)
qed

lemma RMSE_AddEval_fold:
  "aligned p ls \<Longrightarrow> shape0 p = 1 \<Longrightarrow>
   RMSE_AddEval ar p ls st = Inr (fold (\<lambda>(r, l). RMSE_body ar (r ! 0) l) (instances p ls) st)"
  using for_loop_zip [of "data p" "shape1 p" ls "\<lambda>r l. RMSE_body ar (r ! 0) l" st]
  by (simp add: RMSE_AddEval_def Assert_def and_then_def aligned_def wf_tensor_def
      instances_def elem_def row_def)

lemma CorrSqr_AddEval_fold:
  "aligned p ls \<Longrightarrow> shape0 p = 1 \<Longrightarrow>
   CorrSqr_AddEval ar p ls st = Inr (fold (\<lambda>(r, l). CorrSqr_body ar (r ! 0) l) (instances p ls) st)"
  using for_loop_zip [of "data p" "shape1 p" ls "\<lambda>r l. CorrSqr_body ar (r ! 0) l" st]
  by (simp add: CorrSqr_AddEval_def Assert_def and_then_def aligned_def wf_tensor_def
      instances_def elem_def row_def)

lemma Error_AddEval_fold:
  "aligned p ls \<Longrightarrow> shape0 p = 1 \<Longrightarrow>
   Error_AddEval ar p ls st =
     Inr (fold (\<lambda>(r, l). Error_body ar \<lparr>shape1d = 1, data1d = r\<rparr> l) (instances p ls) st)"
  using for_loop_zip [of "data p" "shape1 p" ls "\<lambda>r l. Error_body ar \<lparr>shape1d = 1, data1d = r\<rparr> l" st]
  by (simp add: Error_AddEval_def Assert_def and_then_def aligned_def wf_tensor_def
      instances_def elem_def row_def)

lemma instances_concat:
  "aligned a la \<Longrightarrow> instances (concat_batch a b) (la @ lb) = instances a la @ instances b lb"
  by (simp add: instances_def concat_batch_def aligned_def wf_tensor_def)

lemma aligned_concat:
  "aligned a la \<Longrightarrow> aligned b lb \<Longrightarrow> shape0 a = shape0 b \<Longrightarrow> aligned (concat_batch a b) (la @ lb)"
  by (simp add: concat_batch_def aligned_def wf_tensor_def)

lemma RMSE_fold_fields:
  "fold (\<lambda>(r, l). RMSE_body ar (r ! 0) l) xs st =
     \<lparr>rmse_sum_err = foldl (\<lambda>acc (r, l). d_add ar acc
          (f2d ar (f_mul ar (f_sub ar (r ! 0) l) (f_sub ar (r ! 0) l)))) (rmse_sum_err st) xs,
      rmse_cnt_inst = rmse_cnt_inst st + int (length xs)\<rparr>"
  by (induction xs arbitrary: st) (simp_all add: RMSE_body_def Let_def split_beta)

lemma CorrSqr_fold_fields:
  "fold (\<lambda>(r, l). CorrSqr_body ar (r ! 0) l) xs st =
     \<lparr>sum_x = foldl (\<lambda>acc (r, l). d_add ar acc (f2d ar (f_sub ar (r ! 0) (f_half ar)))) (sum_x st) xs,
      sum_y = foldl (\<lambda>acc (r, l). d_add ar acc (f2d ar (f_sub ar l (f_half ar)))) (sum_y st) xs,
      sum_xsqr = foldl (\<lambda>acc (r, l). d_add ar acc (f2d ar
          (f_mul ar (f_sub ar (r ! 0) (f_half ar)) (f_sub ar (r ! 0) (f_half ar))))) (sum_xsqr st) xs,
      sum_ysqr = foldl (\<lambda>acc (r, l). d_add ar acc (f2d ar
          (f_mul ar (f_sub ar l (f_half ar)) (f_sub ar l (f_half ar))))) (sum_ysqr st) xs,
      sum_xyprod = foldl (\<lambda>acc (r, l). d_add ar acc (f2d ar
          (f_mul ar (f_sub ar (r ! 0) (f_half ar)) (f_sub ar l (f_half ar))))) (sum_xyprod st) xs,
      corr_cnt_inst = corr_cnt_inst st + int (length xs)\<rparr>"
  by (induction xs arbitrary: st) (simp_all add: CorrSqr_body_def Let_def split_beta)

lemma length_instances: "aligned p ls \<Longrightarrow> length (instances p ls) = shape1 p"
  by (simp add: instances_def aligned_def wf_tensor_def)

lemma AddEval_seq_RMSE:
  "\<forall>(p, ls) \<in> set batches. aligned p ls \<and> shape0 p = 1 \<Longrightarrow>
   AddEval_seq (RMSE_AddEval ar) batches st =
     Inr (fold (\<lambda>(r, l). RMSE_body ar (r ! 0) l) (all_instances batches) st)"
proof (induction batches arbitrary: st)
  case Nil
  then show ?case by (simp add: all_instances_def)
next
  case (Cons b batches)
  obtain p ls where b: "b = (p, ls)" by (cases b)
  from Cons.prems have ok: "aligned p ls" "shape0 p = 1"
    and rest: "\<forall>(p, ls) \<in> set batches. aligned p ls \<and> shape0 p = 1"
    by (auto simp: b)
  have tl: "all_instances ((p, ls) # batches) = instances p ls @ all_instances batches"
    by (simp add: all_instances_def)
  show ?case
    by (simp add: b tl Cons.IH [OF rest] RMSE_AddEval_fold [OF ok] and_then_def)
qed

text \<open>The invariant of the loop of \<open>GetMaxIndex\<close>, after the indices below \<open>k\<close>.\<close>

lemma GetMaxIndex_loop:
  assumes sw: "strict_weak_on gt (set v)" and k: "1 \<le> k" "k \<le> length v"
  shows "(let m = fold (\<lambda>i maxidx. if gt (v ! i) (v ! maxidx) then i else maxidx) [1..<k] 0
          in m < k \<and> (\<forall>j<k. \<not> gt (v ! j) (v ! m)) \<and> (\<forall>j<m. gt (v ! m) (v ! j)))"
proof -
  have irr: "\<And>a. a \<in> set v \<Longrightarrow> \<not> gt a a"
    using sw unfolding strict_weak_on_def by blast
  have tr: "\<And>a b c. a \<in> set v \<Longrightarrow> b \<in> set v \<Longrightarrow> c \<in> set v \<Longrightarrow> gt a b \<Longrightarrow> gt b c \<Longrightarrow> gt a c"
    using sw unfolding strict_weak_on_def by blast
  have ntr: "\<And>a b c. a \<in> set v \<Longrightarrow> b \<in> set v \<Longrightarrow> c \<in> set v \<Longrightarrow> \<not> gt a b \<Longrightarrow> \<not> gt b c \<Longrightarrow> \<not> gt a c"
    using sw unfolding strict_weak_on_def by blast
  define F where "F = (\<lambda>k. fold (\<lambda>i maxidx. if gt (v ! i) (v ! maxidx) then i else maxidx) [1..<k] (0::nat))"
  have "k \<le> length v \<longrightarrow> F k < k \<and> (\<forall>j<k. \<not> gt (v ! j) (v ! F k)) \<and> (\<forall>j<F k. gt (v ! F k) (v ! j))"
    using k(1)
  proof (induction k rule: dec_induct)
    case base
    have f1: "F 1 = 0" by (simp add: F_def)
    show ?case
    proof
      assume "1 \<le> length v"
      then have "v ! 0 \<in> set v" by (cases v) simp_all
      then have "\<not> gt (v ! 0) (v ! 0)" by (rule irr)
      then show "F 1 < 1 \<and> (\<forall>j<1. \<not> gt (v ! j) (v ! F 1)) \<and> (\<forall>j<F 1. gt (v ! F 1) (v ! j))"
        using f1 by simp
    qed
  next
    case (step n)
    show ?case
    proof
      assume sn: "Suc n \<le> length v"
      define m where "m = F n"
      from step sn have ih: "m < n" "\<forall>j<n. \<not> gt (v ! j) (v ! m)" "\<forall>j<m. gt (v ! m) (v ! j)"
        by (simp_all add: m_def)
      have nv: "n < length v" using sn by simp
      have mem: "\<And>j. j \<le> n \<Longrightarrow> v ! j \<in> set v" using nv by simp
      have up: "F (Suc n) = (if gt (v ! n) (v ! m) then n else m)"
        using step(1) by (simp add: m_def F_def)
      show "F (Suc n) < Suc n \<and> (\<forall>j<Suc n. \<not> gt (v ! j) (v ! F (Suc n))) \<and>
            (\<forall>j<F (Suc n). gt (v ! F (Suc n)) (v ! j))"
      proof (cases "gt (v ! n) (v ! m)")
        case True
        have a: "\<not> gt (v ! j) (v ! n)" if "j < Suc n" for j
        proof (cases "j = n")
          case True then show ?thesis using irr [of "v ! n"] mem [of n] by simp
        next
          case False
          then have jn: "j < n" using that by simp
          then have "\<not> gt (v ! j) (v ! m)" using ih(2) by simp
          moreover have "v ! j \<in> set v" "v ! n \<in> set v" "v ! m \<in> set v"
            using mem jn ih(1) by simp_all
          ultimately show ?thesis using tr [of "v ! j" "v ! n" "v ! m"] True by blast
        qed
        have b: "gt (v ! n) (v ! j)" if jn: "j < n" for j
        proof -
          have "\<not> gt (v ! j) (v ! m)" using ih(2) jn by simp
          moreover have "v ! j \<in> set v" "v ! n \<in> set v" "v ! m \<in> set v"
            using mem jn ih(1) by simp_all
          ultimately show ?thesis using ntr [of "v ! n" "v ! j" "v ! m"] True by blast
        qed
        have "F (Suc n) = n" using up True by simp
        then show ?thesis using a b by simp
      next
        case False
        have a: "\<not> gt (v ! j) (v ! m)" if "j < Suc n" for j
          using ih(2) False that by (cases "j = n") simp_all
        have "F (Suc n) = m" using up False by simp
        then show ?thesis using a ih(1,3) by simp
      qed
    qed
  qed
  then show ?thesis using k(2) by (simp add: F_def Let_def)
qed

subsection \<open>The comparison of \<open>float\<close> values and the special values\<close>

lemma exact_gt_strict_weak: "strict_weak_on (f_gt exact_arith) S"
  by (auto simp: strict_weak_on_def exact_arith_def)

lemma Error_body_fields:
  "Error_body ar pred label st =
     \<lparr>err_sum_err = d_add ar (err_sum_err st)
        (l2d ar (if GetMaxIndex ar pred \<noteq> f2i ar label then 1 else 0)),
      err_cnt_inst = err_cnt_inst st + 1\<rparr>"
  by (simp add: Error_body_def Let_def)

lemma ieee_nonfinite_rules: "nonfinite_rules ieee_arith xfinite"
proof -
  have d0: "\<not> xfinite (x_div x (Fin 0))" for x by (cases x) simp_all
  have sq: "\<not> xfinite x \<Longrightarrow> \<not> xfinite (x_sqrt x)" for x by (cases x) simp_all
  have ng: "\<not> xfinite x \<Longrightarrow> \<not> xfinite (x_neg x)" for x by (cases x) simp_all
  have sb: "\<not> xfinite x \<Longrightarrow> \<not> xfinite y \<Longrightarrow> \<not> xfinite (x_sub x y)" for x y
    by (cases x; cases y) (simp_all add: x_sub_def)
  have ml: "\<not> xfinite x \<Longrightarrow> \<not> xfinite y \<Longrightarrow> \<not> xfinite (x_mul x y)" for x y
    by (cases x; cases y) simp_all
  have dv: "\<not> xfinite x \<Longrightarrow> \<not> xfinite y \<Longrightarrow> \<not> xfinite (x_div x y)" for x y
    by (cases x; cases y) simp_all
  show ?thesis using d0 sq sb ml dv by (simp add: nonfinite_rules_def ieee_arith_def)
qed

subsection \<open>Names, \<open>std::sort\<close> and \<open>std::unique\<close>\<close>

text \<open>\<open>strcmp\<close> orders strings as the lexicographic order on bytes does.\<close>

lemma strcmp_less: "strcmp a b < 0 \<longleftrightarrow> a < b"
  by (induction a b rule: strcmp.induct) (auto simp: less_char_def)

lemma strcmp_eq: "strcmp a b = 0 \<longleftrightarrow> a = b"
  by (induction a b rule: strcmp.induct) auto

lemma CmpName_less: "CmpName a b \<longleftrightarrow> Name a < Name b"
  by (simp add: CmpName_def strcmp_less)

lemma EqualName_eq: "EqualName a b \<longleftrightarrow> Name a = Name b"
  by (simp add: EqualName_def strcmp_eq)

lemma set_unique_from: "set (unique_from eq k xs) \<subseteq> set xs"
  by (induction xs arbitrary: k) auto

lemma unique_from_strict:
  "sorted_wrt (\<lambda>a b. Name a \<le> Name b) (k # xs) \<Longrightarrow>
   sorted_wrt (\<lambda>a b. Name a < Name b) (k # unique_from EqualName k xs)"
proof (induction xs arbitrary: k)
  case Nil
  then show ?case by simp
next
  case (Cons x xs)
  show ?case
  proof (cases "Name k = Name x")
    case True
    from Cons.prems have "sorted_wrt (\<lambda>a b. Name a \<le> Name b) (k # xs)" by simp
    then show ?thesis using Cons.IH [of k] True by (simp add: EqualName_eq [of k x])
  next
    case False
    from Cons.prems have "Name k \<le> Name x" by simp
    then have kx: "Name k < Name x" using False by (simp add: less_le)
    from Cons.prems have "sorted_wrt (\<lambda>a b. Name a \<le> Name b) (x # xs)" by simp
    then have ih: "sorted_wrt (\<lambda>a b. Name a < Name b) (x # unique_from EqualName x xs)"
      by (rule Cons.IH)
    have "Name k < Name z" if "z \<in> set (unique_from EqualName x xs)" for z
    proof -
      have "Name x < Name z" using ih that by simp
      then show ?thesis using kx by simp
    qed
    then show ?thesis using ih kx False by (simp add: EqualName_eq [of k x])
  qed
qed

lemma unique_from_names:
  "Name ` set (k # unique_from EqualName k xs) = Name ` set (k # xs)"
proof (induction xs arbitrary: k)
  case Nil
  then show ?case by simp
next
  case (Cons x xs)
  show ?case
  proof (cases "Name k = Name x")
    case True
    then show ?thesis using Cons.IH [of k] by (auto simp: EqualName_eq [of k x])
  next
    case False
    then show ?thesis using Cons.IH [of x] by (auto simp: EqualName_eq [of k x])
  qed
qed

lemma unique_from_id:
  "sorted_wrt (\<lambda>a b. Name a < Name b) (k # xs) \<Longrightarrow> unique_from EqualName k xs = xs"
proof (induction xs arbitrary: k)
  case Nil
  then show ?case by simp
next
  case (Cons x xs)
  from Cons.prems have "Name k \<noteq> Name x" by auto
  moreover from Cons.prems have "sorted_wrt (\<lambda>a b. Name a < Name b) (x # xs)" by simp
  then have "unique_from EqualName x xs = xs" by (rule Cons.IH)
  ultimately show ?case by (simp add: EqualName_eq [of k x])
qed

lemma unique_strict:
  "sorted_wrt (\<lambda>a b. Name a \<le> Name b) xs \<Longrightarrow>
   sorted_wrt (\<lambda>a b. Name a < Name b) (unique EqualName xs)"
  using unique_from_strict by (cases xs) simp_all

lemma unique_names: "Name ` set (unique EqualName xs) = Name ` set xs"
  using unique_from_names by (cases xs) simp_all

lemma unique_id: "sorted_wrt (\<lambda>a b. Name a < Name b) xs \<Longrightarrow> unique EqualName xs = xs"
  using unique_from_id by (cases xs) simp_all

lemma std_sort_sorted:
  "is_std_sort srt CmpName \<Longrightarrow> sorted_wrt (\<lambda>a b. Name a \<le> Name b) (srt CmpName xs)"
  by (simp add: is_std_sort_def CmpName_less not_less)

lemma std_sort_mset: "is_std_sort srt CmpName \<Longrightarrow> mset (srt CmpName xs) = mset xs"
  by (simp add: is_std_sort_def)

text \<open>A strictly sorted list has one sorted rearrangement only: itself.\<close>

lemma std_sort_id:
  assumes s: "is_std_sort srt CmpName" and xs: "sorted_wrt (\<lambda>a b. Name a < Name b) xs"
  shows "srt CmpName xs = xs"
proof -
  let ?ys = "srt CmpName xs"
  have m: "mset ?ys = mset xs" using s by (rule std_sort_mset)
  have "sorted_wrt (<) (map Name xs)" using xs by (simp add: sorted_wrt_map)
  then have sx: "sorted (map Name xs)" "distinct (map Name xs)"
    by (simp_all add: strict_sorted_iff)
  have sy: "sorted (map Name ?ys)"
    using std_sort_sorted [OF s, of xs] by (simp add: sorted_map)
  have mm: "mset (map Name ?ys) = mset (map Name xs)" using m by simp
  have "sort (map Name xs) = map Name ?ys" using mm sy by (rule properties_for_sort)
  moreover have "sort (map Name xs) = map Name xs" using sx(1) by (simp add: sorted_sort_id)
  ultimately have eq: "map Name ?ys = map Name xs" by simp
  have "set ?ys = set xs" using m by (rule mset_eq_setD)
  moreover have "inj_on Name (set xs)" using sx(2) by (simp add: distinct_map)
  ultimately have "inj_on Name (set ?ys \<union> set xs)" by simp
  then show ?thesis using eq by (simp add: inj_on_map_eq_map)
qed

lemma AddMetric_strict:
  assumes s: "is_std_sort srt CmpName"
  shows "sorted_wrt (\<lambda>a b. Name a < Name b) (AddMetric ar srt name evals)"
  unfolding AddMetric_def Let_def by (intro unique_strict std_sort_sorted s)

lemma AddMetric_names:
  assumes s: "is_std_sort srt CmpName"
  shows "Name ` set (AddMetric ar srt name evals) =
     Name ` set evals \<union> (if name \<in> {''rmse'', ''error'', ''r2''} then {name} else {})"
proof -
  have "set (srt CmpName xs) = set xs" for xs
    using std_sort_mset [OF s, of xs] by (rule mset_eq_setD)
  then show ?thesis
    by (auto simp: AddMetric_def Let_def unique_names strcmp_eq)
qed

lemma Name_Clear: "Name (Clear ar m) = Name m"
  by (cases m) simp_all

lemma Name_AddEval: "AddEval ar p ls m = Inr m' \<Longrightarrow> Name m' = Name m"
  by (cases m) (auto simp: lift_result_def split: sum.splits prod.splits)

lemma Names_MetricSet_AddEval:
  "MetricSet_AddEval ar p ls evals = Inr evals' \<Longrightarrow> map Name evals' = map Name evals"
proof (induction evals arbitrary: evals')
  case Nil
  then show ?case by simp
next
  case (Cons m ms)
  then show ?case
    by (auto simp: lift_result_def Name_AddEval split: sum.splits prod.splits)
qed

text \<open>Every \<open>MetricSet\<close> the program can build is strictly sorted by name.\<close>

lemma reachable_strict:
  assumes s: "is_std_sort srt CmpName"
  shows "reachable ar srt evals \<Longrightarrow> sorted_wrt (\<lambda>a b. Name a < Name b) evals"
proof (induction rule: reachable.induct)
  case reachable_new
  then show ?case by simp
next
  case (reachable_AddMetric evals name)
  show ?case using s by (rule AddMetric_strict)
next
  case (reachable_Clear evals)
  have "map Name (MetricSet_Clear ar evals) = map Name evals"
    by (simp add: MetricSet_Clear_def Name_Clear)
  then show ?case
    using reachable_Clear.IH sorted_wrt_map [of "(<)" Name] by metis
next
  case (reachable_AddEval evals predscore labels evals')
  have "map Name evals' = map Name evals"
    using reachable_AddEval.hyps(2) by (rule Names_MetricSet_AddEval)
  then show ?case
    using reachable_AddEval.IH sorted_wrt_map [of "(<)" Name] by metis
qed

lemma count_distinct_name:
  "distinct (map f xs) \<Longrightarrow> y \<in> f ` set xs \<Longrightarrow> length (filter (\<lambda>x. f x = y) xs) = 1"
proof (induction xs)
  case Nil
  then show ?case by simp
next
  case (Cons x xs)
  show ?case
  proof (cases "f x = y")
    case True
    from Cons.prems(1) have "f x \<notin> f ` set xs" by simp
    then have "\<forall>z\<in>set xs. f z \<noteq> y" using True by blast
    then have "filter (\<lambda>x. f x = y) xs = []" by (simp add: filter_empty_conv)
    then show ?thesis using True by simp
  next
    case False
    then show ?thesis using Cons by auto
  qed
qed

lemma set_insert_by: "set (insert_by cmp x ys) = insert x (set ys)"
  by (induction ys) auto

lemma mset_insert_by: "mset (insert_by cmp x ys) = add_mset x (mset ys)"
  by (induction ys) auto

lemma sorted_insert_by:
  "sorted_wrt (\<lambda>a b. Name a \<le> Name b) ys \<Longrightarrow>
   sorted_wrt (\<lambda>a b. Name a \<le> Name b) (insert_by CmpName x ys)"
  by (induction ys) (auto simp: set_insert_by CmpName_less)

lemma insertion_sort_std: "is_std_sort insertion_sort CmpName"
proof -
  have m: "mset (insertion_sort CmpName xs) = mset xs" for xs :: "'a IMetric list"
    by (induction xs) (simp_all add: insertion_sort_def mset_insert_by)
  have s: "sorted_wrt (\<lambda>a b. Name a \<le> Name b) (insertion_sort CmpName xs)"
    for xs :: "'a IMetric list"
    by (induction xs) (simp_all add: insertion_sort_def sorted_insert_by)
  show ?thesis using m s by (simp add: is_std_sort_def CmpName_less not_less)
qed

section \<open>The claims of the specification\<close>

text \<open>
  C1. The specification has \<open>MetricError::AddEval\<close> accept every score buffer whose
  output axis has size at least 1, the buffers of several classes included. The header
  does not: its first statement asserts \<open>shape[0] == 1\<close>, so the buffer of the
  specification's own example (three instances, two classes) stops the program with the
  diagnostic of the RMSE metric and no instance is counted.
\<close>

theorem Error_AddEval_rejects_two_classes:
  "Error_AddEval exact_arith
     \<lparr>shape0 = 2, shape1 = 3, data = [[9 / 10, 1 / 10], [2 / 10, 8 / 10], [1 / 2, 1 / 2]]\<rparr>
     [0, 1, 1] (Error_new exact_arith) =
   Inl (AssertError ''RMSE can only accept shape[0]=1'', Error_new exact_arith)"
  by (simp add: Error_AddEval_def Assert_def and_then_def)

text \<open>
  C2. After a call of \<open>MetricSet::AddMetric\<close>, whatever the members were before and
  whatever \<open>std::sort\<close> does with elements of equal names, the members are in strictly
  ascending order of their names, so no two of them have the same name; and after two calls
  with the name rmse exactly one member is named rmse.
\<close>

theorem AddMetric_sorted_unique:
  assumes s: "is_std_sort srt CmpName"
  shows "sorted_wrt CmpName (AddMetric ar srt name evals) \<and>
         distinct (map Name (AddMetric ar srt name evals)) \<and>
         length (filter (\<lambda>m. Name m = ''rmse'')
           (AddMetric ar srt ''rmse'' (AddMetric ar srt ''rmse'' evals))) = 1"
proof -
  have st: "sorted_wrt (\<lambda>a b. Name a < Name b) (AddMetric ar srt name evals)" for name evals
    using s by (rule AddMetric_strict)
  have d: "distinct (map Name (AddMetric ar srt name evals))" for name evals
    using st [of name evals] sorted_wrt_map [of "(<)" Name] strict_sorted_iff by metis
  have "''rmse'' \<in> Name ` set (AddMetric ar srt ''rmse'' (AddMetric ar srt ''rmse'' evals))"
    by (simp add: AddMetric_names [OF s])
  then have "length (filter (\<lambda>m. Name m = ''rmse'')
           (AddMetric ar srt ''rmse'' (AddMetric ar srt ''rmse'' evals))) = 1"
    using d by (intro count_distinct_name)
  then show ?thesis using st [of name evals] d [of name evals]
    by (simp add: CmpName_less [abs_def])
qed

theorem AddMetric_sorted_unique_witness:
  "is_std_sort insertion_sort (CmpName :: real IMetric \<Rightarrow> real IMetric \<Rightarrow> bool) \<and>
   map Name (AddMetric exact_arith insertion_sort ''error''
      [Metric_RMSE (RMSE_new exact_arith), Metric_CorrSqr (CorrSqr_new exact_arith)]) =
     [''error'', ''r2'', ''rmse''] \<and>
   sorted_wrt CmpName (AddMetric exact_arith insertion_sort ''error''
      [Metric_RMSE (RMSE_new exact_arith), Metric_CorrSqr (CorrSqr_new exact_arith)]) \<and>
   distinct (map Name (AddMetric exact_arith insertion_sort ''error''
      [Metric_RMSE (RMSE_new exact_arith), Metric_CorrSqr (CorrSqr_new exact_arith)])) \<and>
   length (filter (\<lambda>m. Name m = ''rmse'')
     (AddMetric exact_arith insertion_sort ''rmse'' (AddMetric exact_arith insertion_sort ''rmse''
        [Metric_RMSE (RMSE_new exact_arith), Metric_CorrSqr (CorrSqr_new exact_arith)]))) = 1"
  using AddMetric_sorted_unique [OF insertion_sort_std, of exact_arith "''error''"
      "[Metric_RMSE (RMSE_new exact_arith), Metric_CorrSqr (CorrSqr_new exact_arith)]"]
    insertion_sort_std [where ?'a = real]
  by (simp add: AddMetric_def insertion_sort_def CmpName_def EqualName_def)

text \<open>
  C3. From a new RMSE metric, after any sequence of \<open>AddEval\<close> calls on aligned batches of
  output-axis size 1 that hold \<open>n \<ge> 1\<close> instances in all, every call has returned,
  \<open>sum_err\<close> is the sum, added up in \<open>double\<close> in the order of the instances from 0.0, of
  the squares \<open>(score[i] - label[i])^2\<close> computed in \<open>float\<close>, the count is \<open>n\<close>, and
  \<open>Get\<close> returns the square root of \<open>sum_err\<close> divided by \<open>n\<close>.
\<close>

theorem RMSE_accumulates:
  assumes ok: "\<forall>(p, ls) \<in> set batches. aligned p ls \<and> shape0 p = 1"
    and n: "n = length (all_instances batches)" and pos: "1 \<le> n"
  shows "(let total = foldl (\<lambda>acc (r, l). d_add ar acc
                 (f2d ar (f_mul ar (f_sub ar (r ! 0) l) (f_sub ar (r ! 0) l))))
               (d_zero ar) (all_instances batches);
              st = \<lparr>rmse_sum_err = total, rmse_cnt_inst = int n\<rparr>
          in AddEval_seq (RMSE_AddEval ar) batches (RMSE_new ar) = Inr st \<and>
             RMSE_Get ar st = d_sqrt ar (d_div ar total (l2d ar (int n))))"
  by (simp add: AddEval_seq_RMSE [OF ok] RMSE_fold_fields n RMSE_new_def RMSE_Get_def Let_def)

theorem RMSE_accumulates_witness:
  "aligned \<lparr>shape0 = 1, shape1 = 2, data = [[0], [1 :: real]]\<rparr> [0, 0] \<and>
   shape0 \<lparr>shape0 = 1, shape1 = 2, data = [[0], [1 :: real]]\<rparr> = 1 \<and>
   aligned \<lparr>shape0 = 1, shape1 = 1, data = [[1 / 2 :: real]]\<rparr> [1] \<and>
   shape0 \<lparr>shape0 = 1, shape1 = 1, data = [[1 / 2 :: real]]\<rparr> = 1 \<and>
   (3 :: nat) = length (all_instances [(\<lparr>shape0 = 1, shape1 = 2, data = [[0], [1 :: real]]\<rparr>, [0, 0]),
        (\<lparr>shape0 = 1, shape1 = 1, data = [[1 / 2]]\<rparr>, [1])]) \<and> (1 :: nat) \<le> 3 \<and>
   AddEval_seq (RMSE_AddEval exact_arith)
      [(\<lparr>shape0 = 1, shape1 = 2, data = [[0], [1]]\<rparr>, [0, 0]),
       (\<lparr>shape0 = 1, shape1 = 1, data = [[1 / 2]]\<rparr>, [1])] (RMSE_new exact_arith) =
     Inr \<lparr>rmse_sum_err = 5 / 4, rmse_cnt_inst = 3\<rparr> \<and>
   RMSE_Get exact_arith \<lparr>rmse_sum_err = 5 / 4, rmse_cnt_inst = 3\<rparr> = sqrt (5 / 12)"
  using RMSE_accumulates [of "[(\<lparr>shape0 = 1, shape1 = 2, data = [[0], [1 :: real]]\<rparr>, [0, 0]),
        (\<lparr>shape0 = 1, shape1 = 1, data = [[1 / 2]]\<rparr>, [1])]" 3 exact_arith]
  by (simp add: aligned_def wf_tensor_def all_instances_def instances_def exact_arith_def Let_def)

text \<open>
  C4. On an aligned batch of output-axis size 1, \<open>MetricCorrSqr::AddEval\<close> returns with,
  for the instances of the batch in order, \<open>x = score[i] - 0.5\<close> and \<open>y = label[i] - 0.5\<close>
  computed in \<open>float\<close>, the terms \<open>x\<close>, \<open>y\<close>, \<open>x * x\<close>, \<open>y * y\<close>, \<open>x * y\<close> added in
  \<open>double\<close> to \<open>sum_x\<close>, \<open>sum_y\<close>, \<open>sum_xsqr\<close>, \<open>sum_ysqr\<close>, \<open>sum_xyprod\<close>, and the count
  raised by the number of instances. In every state \<open>Get\<close> returns
  \<open>cov^2 / (var_x * var_y)\<close> for the means, the covariance and the variances of the
  specification.
\<close>

theorem CorrSqr_accumulates:
  assumes ok: "aligned p labels" and s: "shape0 p = 1"
  shows "CorrSqr_AddEval ar p labels st = Inr
     \<lparr>sum_x = foldl (\<lambda>acc (r, l). d_add ar acc (f2d ar (f_sub ar (r ! 0) (f_half ar))))
         (sum_x st) (instances p labels),
      sum_y = foldl (\<lambda>acc (r, l). d_add ar acc (f2d ar (f_sub ar l (f_half ar))))
         (sum_y st) (instances p labels),
      sum_xsqr = foldl (\<lambda>acc (r, l). d_add ar acc (f2d ar
          (f_mul ar (f_sub ar (r ! 0) (f_half ar)) (f_sub ar (r ! 0) (f_half ar)))))
         (sum_xsqr st) (instances p labels),
      sum_ysqr = foldl (\<lambda>acc (r, l). d_add ar acc (f2d ar
          (f_mul ar (f_sub ar l (f_half ar)) (f_sub ar l (f_half ar)))))
         (sum_ysqr st) (instances p labels),
      sum_xyprod = foldl (\<lambda>acc (r, l). d_add ar acc (f2d ar
          (f_mul ar (f_sub ar (r ! 0) (f_half ar)) (f_sub ar l (f_half ar)))))
         (sum_xyprod st) (instances p labels),
      corr_cnt_inst = corr_cnt_inst st + int (shape1 p)\<rparr> \<and>
    CorrSqr_Get ar st' =
     (let count = l2d ar (corr_cnt_inst st');
          mean_x = d_div ar (sum_x st') count;
          mean_y = d_div ar (sum_y st') count;
          cov = d_sub ar (d_div ar (sum_xyprod st') count) (d_mul ar mean_x mean_y);
          var_x = d_sub ar (d_div ar (sum_xsqr st') count) (d_mul ar mean_x mean_x);
          var_y = d_sub ar (d_div ar (sum_ysqr st') count) (d_mul ar mean_y mean_y)
      in d_div ar (d_mul ar cov cov) (d_mul ar var_x var_y))"
  by (simp add: CorrSqr_AddEval_fold [OF ok s] CorrSqr_fold_fields length_instances [OF ok]
      CorrSqr_Get_def Let_def)

theorem CorrSqr_accumulates_witness:
  "aligned \<lparr>shape0 = 1, shape1 = 2, data = [[1], [0 :: real]]\<rparr> [1, 0] \<and>
   shape0 \<lparr>shape0 = 1, shape1 = 2, data = [[1], [0 :: real]]\<rparr> = 1 \<and>
   CorrSqr_AddEval exact_arith \<lparr>shape0 = 1, shape1 = 2, data = [[1], [0]]\<rparr> [1, 0]
       (CorrSqr_new exact_arith) =
     Inr \<lparr>sum_x = 0, sum_y = 0, sum_xsqr = 1 / 2, sum_ysqr = 1 / 2, sum_xyprod = 1 / 2,
          corr_cnt_inst = 2\<rparr> \<and>
   CorrSqr_Get exact_arith \<lparr>sum_x = 0, sum_y = 0, sum_xsqr = 1 / 2, sum_ysqr = 1 / 2,
       sum_xyprod = 1 / 2, corr_cnt_inst = 2\<rparr> = 1"
  using CorrSqr_accumulates [of "\<lparr>shape0 = 1, shape1 = 2, data = [[1], [0 :: real]]\<rparr>" "[1, 0]"
      exact_arith "CorrSqr_new exact_arith"
      "\<lparr>sum_x = 0, sum_y = 0, sum_xsqr = 1 / 2, sum_ysqr = 1 / 2, sum_xyprod = 1 / 2,
        corr_cnt_inst = 2\<rparr>"]
  by (simp add: aligned_def wf_tensor_def instances_def exact_arith_def CorrSqr_new_def Let_def)

text \<open>
  C5. \<open>GetMaxIndex\<close> returns, for a score vector that is not empty and on whose values
  \<open>>\<close> is a strict weak order (no NaN among them), an index \<open>m\<close> such that no score is
  greater than the score at \<open>m\<close> and the score at \<open>m\<close> is greater than every score before
  it: the first index of the maximum. The loop body of \<open>MetricError::AddEval\<close> adds to
  \<open>sum_err\<close> the \<open>double\<close> of 1 when that index differs from the label cast to \<open>int\<close> and
  the \<open>double\<close> of 0 otherwise, and adds 1 to the count; and \<open>AddEval\<close> runs that body once
  for every instance of every batch it processes, in order, on the scores and the label of
  that instance.
\<close>

theorem Error_counts_argmax_mismatches:
  "(strict_weak_on (f_gt ar) (set (data1d pred)) \<longrightarrow> shape1d pred = length (data1d pred) \<longrightarrow>
      0 < shape1d pred \<longrightarrow>
      (\<exists>m<shape1d pred. GetMaxIndex ar pred = int m \<and>
         (\<forall>j<shape1d pred. \<not> f_gt ar (elem pred j) (elem pred m)) \<and>
         (\<forall>j<m. f_gt ar (elem pred m) (elem pred j)))) \<and>
   Error_body ar pred label st =
     \<lparr>err_sum_err = d_add ar (err_sum_err st)
        (l2d ar (if GetMaxIndex ar pred \<noteq> f2i ar label then 1 else 0)),
      err_cnt_inst = err_cnt_inst st + 1\<rparr> \<and>
   (aligned p labels \<longrightarrow> shape0 p = 1 \<longrightarrow>
      Error_AddEval ar p labels st =
        Inr (fold (\<lambda>(r, l). Error_body ar \<lparr>shape1d = shape0 p, data1d = r\<rparr> l)
               (instances p labels) st))"
proof (intro conjI impI)
  assume sw: "strict_weak_on (f_gt ar) (set (data1d pred))"
    and len: "shape1d pred = length (data1d pred)" and pos: "0 < shape1d pred"
  define m where "m = for_loop 1 (shape1d pred)
      (\<lambda>i maxidx. if f_gt ar (elem pred i) (elem pred maxidx) then i else maxidx) 0"
  have "1 \<le> shape1d pred" "shape1d pred \<le> length (data1d pred)" using len pos by linarith+
  from GetMaxIndex_loop [OF sw this]
  have "m < shape1d pred \<and> (\<forall>j<shape1d pred. \<not> f_gt ar (elem pred j) (elem pred m)) \<and>
        (\<forall>j<m. f_gt ar (elem pred m) (elem pred j))"
    by (simp add: m_def for_loop_def elem_def Let_def)
  moreover have "GetMaxIndex ar pred = int m" by (simp add: GetMaxIndex_def m_def)
  ultimately show "\<exists>m<shape1d pred. GetMaxIndex ar pred = int m \<and>
         (\<forall>j<shape1d pred. \<not> f_gt ar (elem pred j) (elem pred m)) \<and>
         (\<forall>j<m. f_gt ar (elem pred m) (elem pred j))" by blast
next
  show "Error_body ar pred label st =
     \<lparr>err_sum_err = d_add ar (err_sum_err st)
        (l2d ar (if GetMaxIndex ar pred \<noteq> f2i ar label then 1 else 0)),
      err_cnt_inst = err_cnt_inst st + 1\<rparr>" by (rule Error_body_fields)
next
  assume "aligned p labels" "shape0 p = 1"
  then show "Error_AddEval ar p labels st =
        Inr (fold (\<lambda>(r, l). Error_body ar \<lparr>shape1d = shape0 p, data1d = r\<rparr> l)
               (instances p labels) st)"
    by (simp add: Error_AddEval_fold)
qed

theorem Error_counts_argmax_mismatches_witness:
  "strict_weak_on (f_gt exact_arith) (set (data1d \<lparr>shape1d = 4, data1d = [1, 3, 3, 2 :: real]\<rparr>)) \<and>
   shape1d \<lparr>shape1d = 4, data1d = [1, 3, 3, 2 :: real]\<rparr> =
     length (data1d \<lparr>shape1d = 4, data1d = [1, 3, 3, 2 :: real]\<rparr>) \<and>
   GetMaxIndex exact_arith \<lparr>shape1d = 4, data1d = [1, 3, 3, 2]\<rparr> = 1 \<and>
   Error_body exact_arith \<lparr>shape1d = 4, data1d = [1, 3, 3, 2]\<rparr> 2 (Error_new exact_arith) =
     \<lparr>err_sum_err = 1, err_cnt_inst = 1\<rparr> \<and>
   aligned \<lparr>shape0 = 1, shape1 = 2, data = [[3 / 10], [7 / 10 :: real]]\<rparr> [0, 1] \<and>
   Error_AddEval exact_arith \<lparr>shape0 = 1, shape1 = 2, data = [[3 / 10], [7 / 10]]\<rparr> [0, 1]
       (Error_new exact_arith) = Inr \<lparr>err_sum_err = 1, err_cnt_inst = 2\<rparr>"
  using Error_counts_argmax_mismatches [of exact_arith "\<lparr>shape1d = 4, data1d = [1, 3, 3, 2]\<rparr>"
      2 "Error_new exact_arith" "\<lparr>shape0 = 1, shape1 = 2, data = [[3 / 10], [7 / 10]]\<rparr>" "[0, 1]"]
    exact_gt_strict_weak [of "set [1, 3, 3, 2]"]
  by (simp add: aligned_def wf_tensor_def instances_def Error_body_fields GetMaxIndex_def
      for_loop_def upt_conv_Cons elem_def exact_arith_def Error_new_def)

text \<open>
  C6. When the output axis of the score buffer has a size other than 1, \<open>AddEval\<close> of the
  RMSE metric and of the squared-correlation metric stops at its assertion, before any
  instance is read, and the state of the metric is the one it had before the call.
\<close>

theorem shape_violation_fails_fast:
  "shape0 predscore \<noteq> 1 \<Longrightarrow>
   RMSE_AddEval ar predscore labels r =
     Inl (AssertError ''RMSE can only accept shape[0]=1'', r) \<and>
   CorrSqr_AddEval ar predscore labels c =
     Inl (AssertError ''RMSE can only accept shape[0]=1'', c)"
  by (simp add: RMSE_AddEval_def CorrSqr_AddEval_def Assert_def and_then_def)

theorem shape_violation_fails_fast_witness:
  "shape0 \<lparr>shape0 = 2, shape1 = 1, data = [[1, 0 :: real]]\<rparr> \<noteq> 1 \<and>
   RMSE_AddEval exact_arith \<lparr>shape0 = 2, shape1 = 1, data = [[1, 0]]\<rparr> [1]
       \<lparr>rmse_sum_err = 5 / 4, rmse_cnt_inst = 3\<rparr> =
     Inl (AssertError ''RMSE can only accept shape[0]=1'', \<lparr>rmse_sum_err = 5 / 4, rmse_cnt_inst = 3\<rparr>) \<and>
   CorrSqr_AddEval exact_arith \<lparr>shape0 = 2, shape1 = 1, data = [[1, 0]]\<rparr> [1]
       (CorrSqr_new exact_arith) =
     Inl (AssertError ''RMSE can only accept shape[0]=1'', CorrSqr_new exact_arith)"
  using shape_violation_fails_fast [of "\<lparr>shape0 = 2, shape1 = 1, data = [[1, 0 :: real]]\<rparr>"
      exact_arith "[1]" "\<lparr>rmse_sum_err = 5 / 4, rmse_cnt_inst = 3\<rparr>" "CorrSqr_new exact_arith"]
  by simp

text \<open>
  C7. For a name other than rmse, error and r2, \<open>MetricSet::AddMetric\<close>, which has no
  assertion and returns nothing but the new collection, leaves the members of every
  \<open>MetricSet\<close> the program can have built as they were: the same metrics in the same order.
\<close>

theorem AddMetric_unknown_name_ignored:
  assumes s: "is_std_sort srt CmpName" and r: "reachable ar srt evals"
    and n: "name \<notin> {''rmse'', ''error'', ''r2''}"
  shows "AddMetric ar srt name evals = evals"
proof -
  have st: "sorted_wrt (\<lambda>a b. Name a < Name b) evals" using s r by (rule reachable_strict)
  have "srt CmpName evals = evals" using s st by (rule std_sort_id)
  then show ?thesis using n st by (simp add: AddMetric_def strcmp_eq unique_id)
qed

theorem AddMetric_unknown_name_ignored_witness:
  "is_std_sort insertion_sort (CmpName :: real IMetric \<Rightarrow> real IMetric \<Rightarrow> bool) \<and>
   reachable exact_arith insertion_sort
     (AddMetric exact_arith insertion_sort ''error'' (AddMetric exact_arith insertion_sort ''rmse'' [])) \<and>
   ''bogus'' \<notin> {''rmse'', ''error'', ''r2''} \<and>
   AddMetric exact_arith insertion_sort ''error'' (AddMetric exact_arith insertion_sort ''rmse'' []) =
     [Metric_Error (Error_new exact_arith), Metric_RMSE (RMSE_new exact_arith)] \<and>
   AddMetric exact_arith insertion_sort ''bogus''
     (AddMetric exact_arith insertion_sort ''error'' (AddMetric exact_arith insertion_sort ''rmse'' [])) =
     [Metric_Error (Error_new exact_arith), Metric_RMSE (RMSE_new exact_arith)]"
proof -
  have r: "reachable exact_arith insertion_sort
     (AddMetric exact_arith insertion_sort ''error'' (AddMetric exact_arith insertion_sort ''rmse'' []))"
    by (intro reachable_AddMetric reachable_new)
  have n: "''bogus'' \<notin> {''rmse'', ''error'', ''r2''}" by simp
  have v: "AddMetric exact_arith insertion_sort ''error''
      (AddMetric exact_arith insertion_sort ''rmse'' []) =
     [Metric_Error (Error_new exact_arith), Metric_RMSE (RMSE_new exact_arith)]"
    by (simp add: AddMetric_def insertion_sort_def CmpName_def EqualName_def)
  show ?thesis
    using AddMetric_unknown_name_ignored [OF insertion_sort_std r n] insertion_sort_std r v
    by simp
qed

text \<open>
  C8. A call of \<open>AddEval\<close> on a batch of no instance leaves the state of each of the three
  metrics as it was, whether the call returns (output axis of size 1) or stops at the
  assertion, so that \<open>Get\<close> returns after the call what it returned before.
\<close>

theorem empty_batch_changes_nothing:
  "shape1 predscore = 0 \<Longrightarrow>
   final_state (RMSE_AddEval ar predscore labels r) = r \<and>
   final_state (CorrSqr_AddEval ar predscore labels c) = c \<and>
   final_state (Error_AddEval ar predscore labels e) = e \<and>
   (shape0 predscore = 1 \<longrightarrow>
      RMSE_AddEval ar predscore labels r = Inr r \<and>
      CorrSqr_AddEval ar predscore labels c = Inr c \<and>
      Error_AddEval ar predscore labels e = Inr e) \<and>
   RMSE_Get ar (final_state (RMSE_AddEval ar predscore labels r)) = RMSE_Get ar r \<and>
   CorrSqr_Get ar (final_state (CorrSqr_AddEval ar predscore labels c)) = CorrSqr_Get ar c \<and>
   Error_Get ar (final_state (Error_AddEval ar predscore labels e)) = Error_Get ar e"
  by (simp add: RMSE_AddEval_def CorrSqr_AddEval_def Error_AddEval_def Assert_def and_then_def
      final_state_def for_loop_def)

theorem empty_batch_changes_nothing_witness:
  "shape1 \<lparr>shape0 = 1, shape1 = 0, data = ([] :: real list list)\<rparr> = 0 \<and>
   shape0 \<lparr>shape0 = 1, shape1 = 0, data = ([] :: real list list)\<rparr> = 1 \<and>
   RMSE_AddEval exact_arith \<lparr>shape0 = 1, shape1 = 0, data = []\<rparr> []
       \<lparr>rmse_sum_err = 5 / 4, rmse_cnt_inst = 3\<rparr> = Inr \<lparr>rmse_sum_err = 5 / 4, rmse_cnt_inst = 3\<rparr> \<and>
   CorrSqr_AddEval exact_arith \<lparr>shape0 = 1, shape1 = 0, data = []\<rparr> []
       \<lparr>sum_x = 0, sum_y = 0, sum_xsqr = 1 / 2, sum_ysqr = 1 / 2, sum_xyprod = 1 / 2,
        corr_cnt_inst = 2\<rparr> =
     Inr \<lparr>sum_x = 0, sum_y = 0, sum_xsqr = 1 / 2, sum_ysqr = 1 / 2, sum_xyprod = 1 / 2,
          corr_cnt_inst = 2\<rparr> \<and>
   Error_AddEval exact_arith \<lparr>shape0 = 1, shape1 = 0, data = []\<rparr> []
       \<lparr>err_sum_err = 1, err_cnt_inst = 2\<rparr> = Inr \<lparr>err_sum_err = 1, err_cnt_inst = 2\<rparr>"
  using empty_batch_changes_nothing [of "\<lparr>shape0 = 1, shape1 = 0, data = []\<rparr>" exact_arith "[]"
      "\<lparr>rmse_sum_err = 5 / 4, rmse_cnt_inst = 3\<rparr>"
      "\<lparr>sum_x = 0, sum_y = 0, sum_xsqr = 1 / 2, sum_ysqr = 1 / 2, sum_xyprod = 1 / 2,
        corr_cnt_inst = 2\<rparr>"
      "\<lparr>err_sum_err = 1, err_cnt_inst = 2\<rparr>"]
  by simp

text \<open>
  C9. In a state with no accumulated instance (the count is 0) \<open>Get\<close> of each metric
  divides by the \<open>double\<close> of 0 with no test before it and raises nothing: under the rules
  of IEEE 754 for values that are not finite, the value it returns is not finite.
\<close>

theorem Get_without_instances_not_finite:
  assumes rules: "nonfinite_rules ar isfinite"
  shows "(rmse_cnt_inst r = 0 \<longrightarrow>
            RMSE_Get ar r = d_sqrt ar (d_div ar (rmse_sum_err r) (l2d ar 0)) \<and>
            \<not> isfinite (RMSE_Get ar r)) \<and>
         (corr_cnt_inst c = 0 \<longrightarrow> \<not> isfinite (CorrSqr_Get ar c)) \<and>
         (err_cnt_inst e = 0 \<longrightarrow>
            Error_Get ar e = d_div ar (err_sum_err e) (l2d ar 0) \<and>
            \<not> isfinite (Error_Get ar e))"
proof -
  have d0: "\<not> isfinite (d_div ar x (l2d ar 0))" for x
    using rules by (simp add: nonfinite_rules_def)
  have sq: "\<not> isfinite x \<Longrightarrow> \<not> isfinite (d_sqrt ar x)" for x
    using rules by (simp add: nonfinite_rules_def)
  have sb: "\<not> isfinite x \<Longrightarrow> \<not> isfinite y \<Longrightarrow> \<not> isfinite (d_sub ar x y)" for x y
    using rules by (simp add: nonfinite_rules_def)
  have ml: "\<not> isfinite x \<Longrightarrow> \<not> isfinite y \<Longrightarrow> \<not> isfinite (d_mul ar x y)" for x y
    using rules by (simp add: nonfinite_rules_def)
  have dv: "\<not> isfinite x \<Longrightarrow> \<not> isfinite y \<Longrightarrow> \<not> isfinite (d_div ar x y)" for x y
    using rules by (simp add: nonfinite_rules_def)
  have rm: "\<not> isfinite (RMSE_Get ar r)" if "rmse_cnt_inst r = 0"
    using that by (simp add: RMSE_Get_def sq d0)
  have er: "\<not> isfinite (Error_Get ar e)" if "err_cnt_inst e = 0"
    using that by (simp add: Error_Get_def d0)
  have co: "\<not> isfinite (CorrSqr_Get ar c)" if z: "corr_cnt_inst c = 0"
  proof -
    define z where "z = l2d ar 0"
    have q: "\<not> isfinite (d_div ar x z)" for x by (simp add: z_def d0)
    have v: "\<not> isfinite (d_sub ar (d_div ar x z) (d_mul ar (d_div ar y z) (d_div ar w z)))"
      for x y w by (intro sb ml q)
    show ?thesis
      unfolding CorrSqr_Get_def Let_def z z_def [symmetric] by (intro dv ml v)
  qed
  show ?thesis using rm er co by (simp add: RMSE_Get_def Error_Get_def)
qed

theorem Get_without_instances_not_finite_witness:
  "nonfinite_rules ieee_arith xfinite \<and>
   rmse_cnt_inst (RMSE_new ieee_arith) = 0 \<and> RMSE_Get ieee_arith (RMSE_new ieee_arith) = NaN \<and>
   corr_cnt_inst (CorrSqr_new ieee_arith) = 0 \<and> CorrSqr_Get ieee_arith (CorrSqr_new ieee_arith) = NaN \<and>
   err_cnt_inst (Error_new ieee_arith) = 0 \<and> Error_Get ieee_arith (Error_new ieee_arith) = NaN \<and>
   \<not> xfinite (RMSE_Get ieee_arith (RMSE_new ieee_arith)) \<and>
   \<not> xfinite (CorrSqr_Get ieee_arith (CorrSqr_new ieee_arith)) \<and>
   \<not> xfinite (Error_Get ieee_arith (Error_new ieee_arith))"
  using Get_without_instances_not_finite [OF ieee_nonfinite_rules,
      of "RMSE_new ieee_arith" "CorrSqr_new ieee_arith" "Error_new ieee_arith"]
    ieee_nonfinite_rules
  by (simp add: RMSE_new_def CorrSqr_new_def Error_new_def RMSE_Get_def CorrSqr_Get_def
      Error_Get_def ieee_arith_def x_sub_def Let_def)

text \<open>
  C10. For each of the three metrics and from any state, \<open>AddEval\<close> on an aligned batch
  \<open>a\<close> followed by \<open>AddEval\<close> on an aligned batch \<open>b\<close> of the same output-axis size gives
  the very result of one \<open>AddEval\<close> on the concatenation of \<open>a\<close> and \<open>b\<close> along the
  instance axis: the same state when the size is the one the metric asserts, and the same
  failed assertion in the same state otherwise.
\<close>

theorem batch_split_invariant:
  assumes a: "aligned a la" and b: "aligned b lb" and s: "shape0 a = shape0 b"
  shows "and_then (RMSE_AddEval ar a la r) (RMSE_AddEval ar b lb) =
           RMSE_AddEval ar (concat_batch a b) (la @ lb) r \<and>
         and_then (CorrSqr_AddEval ar a la c) (CorrSqr_AddEval ar b lb) =
           CorrSqr_AddEval ar (concat_batch a b) (la @ lb) c \<and>
         and_then (Error_AddEval ar a la e) (Error_AddEval ar b lb) =
           Error_AddEval ar (concat_batch a b) (la @ lb) e"
proof (cases "shape0 a = 1")
  case True
  have ab: "aligned (concat_batch a b) (la @ lb)" using a b s by (rule aligned_concat)
  have sb: "shape0 b = 1" and sab: "shape0 (concat_batch a b) = 1"
    using True s by (simp_all add: concat_batch_def)
  have i: "instances (concat_batch a b) (la @ lb) = instances a la @ instances b lb"
    using a by (rule instances_concat)
  show ?thesis
    by (simp add: RMSE_AddEval_fold [OF a True] RMSE_AddEval_fold [OF b sb]
        RMSE_AddEval_fold [OF ab sab] CorrSqr_AddEval_fold [OF a True]
        CorrSqr_AddEval_fold [OF b sb] CorrSqr_AddEval_fold [OF ab sab]
        Error_AddEval_fold [OF a True] Error_AddEval_fold [OF b sb]
        Error_AddEval_fold [OF ab sab] i and_then_def)
next
  case False
  then show ?thesis
    by (simp add: RMSE_AddEval_def CorrSqr_AddEval_def Error_AddEval_def Assert_def
        and_then_def concat_batch_def)
qed

theorem batch_split_invariant_witness:
  "aligned \<lparr>shape0 = 1, shape1 = 2, data = [[0], [1 :: real]]\<rparr> [0, 0] \<and>
   aligned \<lparr>shape0 = 1, shape1 = 1, data = [[1 / 2 :: real]]\<rparr> [1] \<and>
   shape0 \<lparr>shape0 = 1, shape1 = 2, data = [[0], [1 :: real]]\<rparr> =
     shape0 \<lparr>shape0 = 1, shape1 = 1, data = [[1 / 2 :: real]]\<rparr> \<and>
   and_then (RMSE_AddEval exact_arith \<lparr>shape0 = 1, shape1 = 2, data = [[0], [1]]\<rparr> [0, 0]
        (RMSE_new exact_arith))
      (RMSE_AddEval exact_arith \<lparr>shape0 = 1, shape1 = 1, data = [[1 / 2]]\<rparr> [1]) =
     Inr \<lparr>rmse_sum_err = 5 / 4, rmse_cnt_inst = 3\<rparr> \<and>
   RMSE_AddEval exact_arith \<lparr>shape0 = 1, shape1 = 3, data = [[0], [1], [1 / 2]]\<rparr> [0, 0, 1]
        (RMSE_new exact_arith) = Inr \<lparr>rmse_sum_err = 5 / 4, rmse_cnt_inst = 3\<rparr>"
proof -
  have a: "aligned \<lparr>shape0 = 1, shape1 = 2, data = [[0], [1 :: real]]\<rparr> [0, 0]"
    and b: "aligned \<lparr>shape0 = 1, shape1 = 1, data = [[1 / 2 :: real]]\<rparr> [1]"
    by (simp_all add: aligned_def wf_tensor_def)
  have v: "RMSE_AddEval exact_arith \<lparr>shape0 = 1, shape1 = 3, data = [[0], [1], [1 / 2]]\<rparr>
      [0, 0, 1] (RMSE_new exact_arith) = Inr \<lparr>rmse_sum_err = 5 / 4, rmse_cnt_inst = 3\<rparr>"
    by (simp add: RMSE_AddEval_def Assert_def and_then_def for_loop_def upt_conv_Cons
        RMSE_body_def elem_def row_def exact_arith_def RMSE_new_def Let_def)
  show ?thesis
    using batch_split_invariant [OF a b, of exact_arith "RMSE_new exact_arith"
        "CorrSqr_new exact_arith" "Error_new exact_arith"] a b v
    by (simp add: concat_batch_def)
qed

end
